theory Spec2Isabelle
  imports Main "HOL-Library.Word" "HOL-Library.Sublist"
begin

unbundle bit_operations_syntax

section \<open>JavaScript values, buffers and exceptions\<close>

text \<open>
  A Node \<open>Buffer\<close> is a fixed-length sequence of bytes. The functions of
  \<open>lib/mbr.js\<close> and of the NEWLDR record receive arbitrary JavaScript values and
  test them with \<open>Buffer.isBuffer\<close>, so an argument is a \<open>js_value\<close>.
  A JavaScript number that holds an integer is an \<open>int\<close>; a string is a
  \<open>string\<close> (each character one code unit below 256).
\<close>

type_synonym byte = "8 word"
type_synonym buffer = "byte list"

datatype js_value = JUndefined | JNumber int | JString string | JBuffer buffer

text \<open>
  The exceptions that are thrown: the three constructors the source calls by name
  (\<open>TypeError\<close>, \<open>Error\<close>, \<open>SyntaxError\<close>, each with its message), and
  \<open>RangeError\<close> for the bounds and value checks that the \<open>Buffer\<close> read and write
  methods perform themselves.
\<close>

datatype js_error = TypeError string | Error string | SyntaxError string | RangeError

text \<open>Sequencing: an exception ends the function that is running.\<close>

definition bind_err :: "js_error + 'a \<Rightarrow> ('a \<Rightarrow> js_error + 'b) \<Rightarrow> js_error + 'b" where
  "bind_err m f = (case m of Inl e \<Rightarrow> Inl e | Inr x \<Rightarrow> f x)"

fun isBuffer :: "js_value \<Rightarrow> bool" where
  "isBuffer (JBuffer b) = True"
| "isBuffer v = False"

subsection \<open>The Buffer methods the source calls\<close>

text \<open>\<open>buffer[i]\<close>: the byte at \<open>i\<close>, or \<open>undefined\<close> (here \<open>None\<close>) out of range.\<close>

definition index_get :: "buffer \<Rightarrow> nat \<Rightarrow> byte option" where
  "index_get b i = (if i < length b then Some (b ! i) else None)"

text \<open>\<open>buffer[i] = v\<close>: an assignment out of range does nothing.\<close>

definition index_set :: "buffer \<Rightarrow> nat \<Rightarrow> byte \<Rightarrow> buffer" where
  "index_set b i v = (if i < length b then b[i := v] else b)"

definition readUInt8 :: "buffer \<Rightarrow> nat \<Rightarrow> js_error + int" where
  "readUInt8 b off =
     (if off + 1 \<le> length b then Inr (uint (b ! off)) else Inl RangeError)"

definition readUInt16LE :: "buffer \<Rightarrow> nat \<Rightarrow> js_error + int" where
  "readUInt16LE b off =
     (if off + 2 \<le> length b
      then Inr (uint (b ! off) + 256 * uint (b ! (off + 1)))
      else Inl RangeError)"

definition readUInt32LE :: "buffer \<Rightarrow> nat \<Rightarrow> js_error + int" where
  "readUInt32LE b off =
     (if off + 4 \<le> length b
      then Inr (uint (b ! off) + 256 * uint (b ! (off + 1))
                + 65536 * uint (b ! (off + 2)) + 16777216 * uint (b ! (off + 3)))
      else Inl RangeError)"

text \<open>
  \<open>buffer.toString('ascii', start)\<close> with no end: every byte from \<open>start\<close> to the
  end of the buffer, each with its high bit cleared.
\<close>

definition ascii_char :: "byte \<Rightarrow> char" where
  "ascii_char w = char_of (uint (w AND 0x7F))"

definition toString_ascii :: "buffer \<Rightarrow> nat \<Rightarrow> string" where
  "toString_ascii b start = map ascii_char (drop start b)"

text \<open>\<open>buffer.slice(start, end)\<close> for non-negative offsets, both clamped to the length.\<close>

definition buffer_slice :: "buffer \<Rightarrow> nat \<Rightarrow> nat \<Rightarrow> buffer" where
  "buffer_slice b start end = drop start (take end b)"

text \<open>
  The checked writes \<open>writeUInt8\<close>, \<open>writeUInt16LE\<close> and \<open>writeUInt32LE\<close>
  (called without \<open>noAssert\<close>). The value is what a property of the record holds:
  an integer, or \<open>undefined\<close> (here \<open>None\<close>) when the property is unset. The method
  converts it to a number first, and \<open>undefined\<close> becomes \<open>NaN\<close>. The range check
  throws when \<open>value > max || value < min\<close>, which \<open>NaN\<close> never satisfies, and storing
  \<open>NaN\<close> in a byte stores 0. An offset that leaves no room throws as well.
\<close>

definition out_of_range :: "int option \<Rightarrow> int \<Rightarrow> bool" where
  "out_of_range value mx = (case value of None \<Rightarrow> False | Some n \<Rightarrow> n > mx \<or> n < 0)"

definition stored :: "int option \<Rightarrow> int" where
  "stored value = (case value of None \<Rightarrow> 0 | Some n \<Rightarrow> n)"

definition writeUInt8 :: "buffer \<Rightarrow> int option \<Rightarrow> nat \<Rightarrow> js_error + buffer" where
  "writeUInt8 b v off =
     (if out_of_range v 0xFF \<or> length b < off + 1
      then Inl RangeError
      else Inr (b[off := word_of_int (stored v)]))"

definition writeUInt16LE :: "buffer \<Rightarrow> int option \<Rightarrow> nat \<Rightarrow> js_error + buffer" where
  "writeUInt16LE b v off =
     (if out_of_range v 0xFFFF \<or> length b < off + 2
      then Inl RangeError
      else Inr (b[off := word_of_int (stored v), off + 1 := word_of_int (stored v div 256)]))"

definition writeUInt32LE :: "buffer \<Rightarrow> int option \<Rightarrow> nat \<Rightarrow> js_error + buffer" where
  "writeUInt32LE b v off =
     (if out_of_range v 0xFFFFFFFF \<or> length b < off + 4
      then Inl RangeError
      else Inr (b[off := word_of_int (stored v), off + 1 := word_of_int (stored v div 256),
                  off + 2 := word_of_int (stored v div 65536),
                  off + 3 := word_of_int (stored v div 16777216)]))"

text \<open>
  \<open>source.copy(target, targetStart)\<close> stores the bytes of \<open>source\<close> in \<open>target\<close>,
  starting at \<open>targetStart\<close>, and stops at the end of the target: what does not fit
  is cut, the target never grows.
\<close>

definition copy :: "buffer \<Rightarrow> buffer \<Rightarrow> nat \<Rightarrow> buffer" where
  "copy source target targetStart =
     take targetStart target @ take (length target - targetStart) source
       @ drop (targetStart + length source) target"

text \<open>
  \<open>buffer.write(string, offset, 'ascii')\<close> stores one byte for each character in the
  same way: a string that does not fit is cut. An argument that is not a string
  (here \<open>None\<close>, the \<open>undefined\<close> of an unset property) throws a \<open>TypeError\<close>.
\<close>

definition write_ascii :: "buffer \<Rightarrow> string option \<Rightarrow> nat \<Rightarrow> js_error + buffer" where
  "write_ascii b s off =
     (case s of
        None \<Rightarrow> Inl (TypeError ''argument must be a string'')
      | Some str \<Rightarrow> Inr (copy (map of_char str) b off))"

subsection \<open>Number.prototype.toString(16) and String.prototype.toUpperCase\<close>

definition hex_digit :: "nat \<Rightarrow> char" where
  "hex_digit d = ''0123456789abcdef'' ! (d mod 16)"

function hex_digits :: "nat \<Rightarrow> string" where
  "hex_digits n = (if n < 16 then [hex_digit n] else hex_digits (n div 16) @ [hex_digit n])"
  by pat_completeness auto
termination
  by (relation "measure id") auto

declare hex_digits.simps [simp del]

definition toString16 :: "int \<Rightarrow> string" where
  "toString16 n = (if n < 0 then CHR ''-'' # hex_digits (nat (- n)) else hex_digits (nat n))"

text \<open>Upper-casing, on the letters a string of hexadecimal digits can hold.\<close>

definition upper_char :: "char \<Rightarrow> char" where
  "upper_char c =
     (if (97::nat) \<le> of_char c \<and> of_char c \<le> (122::nat)
      then char_of (of_char c - (32::nat)) else c)"

definition toUpperCase :: "string \<Rightarrow> string" where
  "toUpperCase s = map upper_char s"

section \<open>lib/mbr.js\<close>

text \<open>
  \<open>MBR.detectFormat\<close>. The format is returned as the string the source returns.
  The three guards throw in the order of the source; the marker tests follow in
  the order of the \<open>if\<close>/\<open>else if\<close> chain.
\<close>

definition detectFormat :: "js_value \<Rightarrow> js_error + string" where
  "detectFormat v =
     (case v of
        JBuffer buffer \<Rightarrow>
          if length buffer < 512
          then Inl (Error ''Buffer too small (must be at least 512 bytes)'')
          else
            bind_err (readUInt16LE buffer 0x1FE) (\<lambda>sig.
                 if sig \<noteq> 0xAA55
                 then Inl (SyntaxError
                        (''Invalid MBR boot signature. Expected 0xAA55, '' @
                         ''but saw 0x'' @ toUpperCase (toString16 sig)))
                 else if index_get buffer 0x17C = Some 0x5A \<and> index_get buffer 0x17D = Some 0xA5
                 then Inr ''AST''
                 else if index_get buffer 0x0FC = Some 0xAA \<and> index_get buffer 0x0FD = Some 0x55
                 then Inr ''DM''
                 else if toString_ascii buffer 0x02 = ''NEWLDR''
                 then Inr ''NEWLDR''
                 else if index_get buffer 0x1AC = Some 0x78 \<and> index_get buffer 0x1AD = Some 0x56
                 then Inr ''AAP''
                 else if index_get buffer 0x0DA = Some 0x00 \<and> index_get buffer 0x0DB = Some 0x00
                 then Inr ''MODERN''
                 else Inr ''CLASSIC'')
      | _ \<Rightarrow> Inl (TypeError ''Argument must be a Buffer''))"

text \<open>\<open>MBR.createBuffer\<close>: 512 bytes, zeroed, then the two signature bytes.\<close>

definition createBuffer :: buffer where
  "createBuffer =
     (let buffer = replicate 0x200 0;
          buffer = index_set buffer 0x1FE 0x55;
          buffer = index_set buffer 0x1FF 0xAA
      in buffer)"

section \<open>The CHS address\<close>

text \<open>
  Modelled from the spec: the cylinder-head-sector address and its 3-byte codec. The
  NEWLDR record obtains them from the package \<open>chs\<close>, which is not among the
  sources. Byte 0 is the head; byte 1 holds the sector in bits 0-5 and the two high
  bits of the cylinder in bits 6-7; byte 2 is the low byte of the cylinder. Encoding
  masks each value to its width. Decoding is stated for three bytes only; any other
  length is an exception here.
\<close>

record CHS =
  cylinder :: int
  head :: int
  sector :: int

definition CHS_get_buffer :: "CHS \<Rightarrow> buffer" where
  "CHS_get_buffer c =
     [word_of_int (head c),
      (word_of_int (drop_bit 2 (cylinder c)) AND 0xC0) OR (word_of_int (sector c) AND 0x3F),
      word_of_int (cylinder c)]"

fun CHS_set_buffer :: "buffer \<Rightarrow> js_error + CHS" where
  "CHS_set_buffer [b0, b1, b2] =
     Inr \<lparr>cylinder = push_bit 2 (uint (b1 AND 0xC0)) OR uint b2,
          head = uint b0,
          sector = uint (b1 AND 0x3F)\<rparr>"
| "CHS_set_buffer bs = Inl RangeError"

section \<open>The NEWLDR record\<close>

text \<open>
  The fields that the constructor \<open>NEWLDRRecord\<close> initialises, each with a value of
  the kind the constructor and the setter give it. The field \<open>size\<close> of the source is
  \<open>size_field\<close> here.
\<close>

record NEWLDRRecord =
  size_field :: int
  physicalDrive :: int
  firstCHS :: CHS
  minDL :: int
  firstLBA :: int
  patchOffset :: int
  checksum :: int
  signature :: string

text \<open>
  The receiver of the getter. The getter reads the eight properties of whatever object
  it is called on, and a record that was populated by hand, and only in part, has
  properties that are unset: each property is \<open>None\<close> (\<open>undefined\<close>) or holds a value.
  \<open>populated\<close> is the object of a record whose fields are all assigned.
\<close>

record NEWLDRRecord_partial =
  size_opt :: "int option"
  physicalDrive_opt :: "int option"
  firstCHS_opt :: "CHS option"
  minDL_opt :: "int option"
  firstLBA_opt :: "int option"
  patchOffset_opt :: "int option"
  checksum_opt :: "int option"
  signature_opt :: "string option"

definition populated :: "NEWLDRRecord \<Rightarrow> NEWLDRRecord_partial" where
  "populated r =
     \<lparr>size_opt = Some (size_field r),
      physicalDrive_opt = Some (physicalDrive r),
      firstCHS_opt = Some (firstCHS r),
      minDL_opt = Some (minDL r),
      firstLBA_opt = Some (firstLBA r),
      patchOffset_opt = Some (patchOffset r),
      checksum_opt = Some (checksum r),
      signature_opt = Some (signature r)\<rparr>"

text \<open>\<open>this.firstCHS.buffer\<close>: reading a property of \<open>undefined\<close> throws a \<open>TypeError\<close>.\<close>

definition firstCHS_buffer :: "CHS option \<Rightarrow> js_error + buffer" where
  "firstCHS_buffer c =
     (case c of
        None \<Rightarrow> Inl (TypeError ''Cannot read properties of undefined'')
      | Some chs \<Rightarrow> Inr (CHS_get_buffer chs))"

text \<open>
  The getter \<open>buffer\<close>: a zeroed buffer of 30 bytes, filled property by property in
  the order of the source. The first statement that throws ends the getter with no
  buffer.
\<close>

definition NEWLDRRecord_get_buffer :: "NEWLDRRecord_partial \<Rightarrow> js_error + buffer" where
  "NEWLDRRecord_get_buffer this =
     (let buffer = replicate 30 0;
          buffer = index_set buffer 0 0xEB
      in bind_err (writeUInt8 buffer (size_opt this) 1) (\<lambda>buffer.
         bind_err (write_ascii buffer (Some ''NEWLDR'') 2) (\<lambda>buffer.
         bind_err (writeUInt8 buffer (physicalDrive_opt this) 8) (\<lambda>buffer.
         bind_err (firstCHS_buffer (firstCHS_opt this)) (\<lambda>chs.
         let buffer = copy chs buffer 9
      in bind_err (writeUInt8 buffer (minDL_opt this) 12) (\<lambda>buffer.
         bind_err (writeUInt32LE buffer (firstLBA_opt this) 16) (\<lambda>buffer.
         bind_err (writeUInt16LE buffer (patchOffset_opt this) 20) (\<lambda>buffer.
         bind_err (writeUInt16LE buffer (checksum_opt this) 22) (\<lambda>buffer.
         write_ascii buffer (signature_opt this) 24)))))))))"

text \<open>
  The setter \<open>buffer\<close>: the fields are assigned in the order of the source, and
  the first read that throws ends the setter. The three bytes \<open>value.slice(9, 12)\<close>
  go to the CHS codec; the slice is shorter only when the buffer has fewer than 12
  bytes, and then \<open>readUInt8(12)\<close> throws.
\<close>

definition NEWLDRRecord_set_buffer ::
  "NEWLDRRecord \<Rightarrow> js_value \<Rightarrow> js_error + NEWLDRRecord" where
  "NEWLDRRecord_set_buffer this v =
     (case v of
        JBuffer value \<Rightarrow>
          bind_err (readUInt8 value 1) (\<lambda>sz.
          let this = this\<lparr>size_field := sz\<rparr> in
          bind_err (readUInt8 value 8) (\<lambda>drive.
          let this = this\<lparr>physicalDrive := drive\<rparr> in
          bind_err (CHS_set_buffer (buffer_slice value 9 12)) (\<lambda>chs.
          let this = this\<lparr>firstCHS := chs\<rparr> in
          bind_err (readUInt8 value 12) (\<lambda>dl.
          let this = this\<lparr>minDL := dl\<rparr> in
          bind_err (readUInt32LE value 16) (\<lambda>lba.
          let this = this\<lparr>firstLBA := lba\<rparr> in
          bind_err (readUInt16LE value 20) (\<lambda>patch.
          let this = this\<lparr>patchOffset := patch\<rparr> in
          bind_err (readUInt16LE value 22) (\<lambda>chk.
          let this = this\<lparr>checksum := chk\<rparr> in
          Inr (this\<lparr>signature := toString_ascii value 24\<rparr>))))))))
      | _ \<Rightarrow> Inl (TypeError ''Value must be a Buffer''))"

section \<open>Notions used to state the properties\<close>

text \<open>
  An ordered chain of tests: the tag of the first test that holds, and a default when
  none does.
\<close>

fun first_match :: "((buffer \<Rightarrow> bool) \<times> string) list \<Rightarrow> string \<Rightarrow> buffer \<Rightarrow> string" where
  "first_match [] other b = other"
| "first_match ((p, t) # ps) other b = (if p b then t else first_match ps other b)"

text \<open>
  The chain of the specification: "bytes [0x17C,0x17D] == [0x5A,0xA5]" gives AST,
  "bytes [0x0FC,0x0FD] == [0xAA,0x55]" gives DM, "ASCII bytes at [0x02..0x08] ==
  NEWLDR" gives NEWLDR, "bytes [0x1AC,0x1AD] == [0x78,0x56]" gives AAP,
  "bytes [0x0DA,0x0DB] == [0x00,0x00]" gives MODERN, in this order.
\<close>

definition spec_chain :: "((buffer \<Rightarrow> bool) \<times> string) list" where
  "spec_chain =
     [(\<lambda>b. buffer_slice b 0x17C 0x17E = [0x5A, 0xA5], ''AST''),
      (\<lambda>b. buffer_slice b 0x0FC 0x0FE = [0xAA, 0x55], ''DM''),
      (\<lambda>b. map ascii_char (buffer_slice b 0x02 0x08) = ''NEWLDR'', ''NEWLDR''),
      (\<lambda>b. buffer_slice b 0x1AC 0x1AE = [0x78, 0x56], ''AAP''),
      (\<lambda>b. buffer_slice b 0x0DA 0x0DC = [0x00, 0x00], ''MODERN'')]"

text \<open>
  The records that the getter encodes: no integer property holds a value outside the
  unsigned range of the bytes it is written to (an unset one is written as 0), and
  \<open>firstCHS\<close> and \<open>signature\<close> are set.
\<close>

definition encodable :: "NEWLDRRecord_partial \<Rightarrow> bool" where
  "encodable r \<longleftrightarrow>
     \<not> out_of_range (size_opt r) 0xFF \<and>
     \<not> out_of_range (physicalDrive_opt r) 0xFF \<and>
     firstCHS_opt r \<noteq> None \<and>
     \<not> out_of_range (minDL_opt r) 0xFF \<and>
     \<not> out_of_range (firstLBA_opt r) 0xFFFFFFFF \<and>
     \<not> out_of_range (patchOffset_opt r) 0xFFFF \<and>
     \<not> out_of_range (checksum_opt r) 0xFFFF \<and>
     signature_opt r \<noteq> None"

text \<open>The offsets of a 30-byte buffer that the setter reads: 1, 8-12 and 16-29.\<close>

definition decoded_positions :: "nat list" where
  "decoded_positions = [1] @ [8..<13] @ [16..<30]"

section \<open>Facts about the buffer operations\<close>

lemma createBuffer_eq: "createBuffer = replicate 510 0 @ [0x55, 0xAA]"
proof (rule nth_equalityI)
  show "length createBuffer = length (replicate 510 (0::byte) @ [0x55, 0xAA])"
    by (simp add: createBuffer_def index_set_def Let_def)
next
  fix i assume "i < length createBuffer"
  then have i: "i < 512" by (simp add: createBuffer_def index_set_def Let_def)
  show "createBuffer ! i = (replicate 510 (0::byte) @ [0x55, 0xAA]) ! i"
    using i
    by (auto simp add: createBuffer_def index_set_def Let_def nth_append nth_list_update nth_Cons
        split: nat.splits)
qed

text \<open>
  The string that \<open>toString('ascii', 2)\<close> returns has one character for each byte from
  offset 2 to the end, so on a sector of 512 bytes or more it is never a string of six
  characters.
\<close>

lemma toString_ascii_sector: "512 \<le> length b \<Longrightarrow> toString_ascii b 2 \<noteq> ''NEWLDR''"
proof
  assume a: "512 \<le> length b" and e: "toString_ascii b 2 = ''NEWLDR''"
  have "length (toString_ascii b 2) = 6" by (simp add: e)
  with a show False by (simp add: toString_ascii_def)
qed

lemma signature_value_iff:
  fixes x y :: byte
  shows "uint x + 256 * uint y = 0xAA55 \<longleftrightarrow> x = 0x55 \<and> y = 0xAA"
proof
  assume h: "uint x + 256 * uint y = 0xAA55"
  have bx: "0 \<le> uint x" "uint x < 256" using uint_bounded [of x] by simp_all
  have "(uint x + 256 * uint y) div 256 = uint y" using bx by simp
  then have y: "uint y = 0xAA" unfolding h by simp
  have "(uint x + 256 * uint y) mod 256 = uint x" using bx by simp
  then have x: "uint x = 0x55" unfolding h by simp
  from x y have "uint x = uint (0x55 :: byte)" "uint y = uint (0xAA :: byte)" by simp_all
  then show "x = 0x55 \<and> y = 0xAA" by (simp only: word_uint_eq_iff)
next
  assume "x = 0x55 \<and> y = 0xAA" then show "uint x + 256 * uint y = 0xAA55" by simp
qed

text \<open>What \<open>MBR.detectFormat\<close> computes on a buffer that passes the length check.\<close>

lemma detectFormat_sector:
  assumes "512 \<le> length b"
  shows "detectFormat (JBuffer b) =
    (if \<not> (b ! 0x1FE = 0x55 \<and> b ! 0x1FF = 0xAA)
     then Inl (SyntaxError (''Invalid MBR boot signature. Expected 0xAA55, but saw 0x'' @
                 toUpperCase (toString16 (uint (b ! 0x1FE) + 256 * uint (b ! 0x1FF)))))
     else if b ! 0x17C = 0x5A \<and> b ! 0x17D = 0xA5 then Inr ''AST''
     else if b ! 0x0FC = 0xAA \<and> b ! 0x0FD = 0x55 then Inr ''DM''
     else if b ! 0x1AC = 0x78 \<and> b ! 0x1AD = 0x56 then Inr ''AAP''
     else if b ! 0x0DA = 0x00 \<and> b ! 0x0DB = 0x00 then Inr ''MODERN''
     else Inr ''CLASSIC'')"
  using assms toString_ascii_sector [OF assms] signature_value_iff [of "b ! 0x1FE" "b ! 0x1FF"]
  by (simp add: detectFormat_def readUInt16LE_def bind_err_def index_get_def)

lemma detectFormat_never_NEWLDR: "detectFormat v \<noteq> Inr ''NEWLDR''"
proof (cases v)
  case (JBuffer b)
  show ?thesis
  proof (cases "512 \<le> length b")
    case True
    then show ?thesis unfolding JBuffer by (simp add: detectFormat_sector)
  next
    case False
    then show ?thesis unfolding JBuffer by (simp add: detectFormat_def)
  qed
qed (simp_all add: detectFormat_def)

lemma hex_zero: "toUpperCase (toString16 0) = ''0''"
  by (simp add: toUpperCase_def toString16_def hex_digits.simps hex_digit_def upper_char_def)

lemma replicate30:
  "replicate 30 (0::byte) =
     [0,0,0,0,0,0,0,0,0,0,0,0,0,0,0,0,0,0,0,0,0,0,0,0,0,0,0,0,0,0]"
  by (simp add: numeral_eq_Suc)

lemma replicate2: "replicate 2 (x::byte) = [x, x]"
  by (simp add: numeral_eq_Suc)

lemma replicate6: "replicate 6 (0::byte) = [0,0,0,0,0,0]"
  by (simp add: numeral_eq_Suc)

lemma upd_Cons_numeral: "(x # xs)[numeral k := v] = x # xs[pred_numeral k := v]"
  by (simp add: numeral_eq_Suc)

lemma copy_tail:
  "length P = n \<Longrightarrow>
   copy src (P @ replicate m z) n = P @ take m src @ replicate (m - length src) z"
  by (simp add: copy_def)

lemma buffer_slice_9_12: "12 \<le> length b \<Longrightarrow> buffer_slice b 9 12 = [b ! 9, b ! 10, b ! 11]"
  by (rule nth_equalityI) (auto simp add: buffer_slice_def nth_Cons split: nat.splits)

lemma drop_24_30:
  "length b = 30 \<Longrightarrow> drop 24 b = [b ! 24, b ! 25, b ! 26, b ! 27, b ! 28, b ! 29]"
  by (rule nth_equalityI) (auto simp add: nth_Cons split: nat.splits)

lemma uint_byte_of_int: "0 \<le> v \<Longrightarrow> v \<le> 255 \<Longrightarrow> uint (word_of_int v :: byte) = v"
  by (simp add: uint_word_of_int take_bit_eq_mod)

lemma of_char_ascii_char: "(of_char (ascii_char w) :: byte) = w AND 0x7F"
proof -
  have "(of_char (ascii_char w) :: int) = uint (w AND 0x7F) mod 256"
    by (simp add: ascii_char_def)
  also have "\<dots> = uint (w AND 0x7F)"
    using uint_bounded [of "w AND 0x7F"] by simp
  finally have "word_of_int (of_char (ascii_char w) :: int) = (w AND 0x7F)"
    by simp
  then show ?thesis by (simp add: of_char_def)
qed

lemma seven_bit_byte: "(w::byte) < 0x80 \<Longrightarrow> w AND 0x7F = w"
  using less_mask_eq [of w 7] by (simp add: mask_eq_exp_minus_1)

lemma buffer_slice_pair: "i + 2 \<le> length b \<Longrightarrow> buffer_slice b i (i + 2) = [b ! i, b ! Suc i]"
  by (rule nth_equalityI) (auto simp add: buffer_slice_def nth_Cons split: nat.splits)

text \<open>
  On a sector with a valid signature the detector follows the chain of the
  specification wherever the NEWLDR test of the chain does not decide: when the tag is
  absent, or when the AST or the DM marker is present.
\<close>

lemma detectFormat_spec_chain:
  assumes "512 \<le> length b" and "b ! 0x1FE = 0x55" and "b ! 0x1FF = 0xAA"
    and "map ascii_char (buffer_slice b 0x02 0x08) \<noteq> ''NEWLDR''
         \<or> (b ! 0x17C = 0x5A \<and> b ! 0x17D = 0xA5) \<or> (b ! 0x0FC = 0xAA \<and> b ! 0x0FD = 0x55)"
  shows "detectFormat (JBuffer b) = Inr (first_match spec_chain ''CLASSIC'' b)"
  using assms buffer_slice_pair [of "0x17C" b] buffer_slice_pair [of "0x0FC" b]
    buffer_slice_pair [of "0x1AC" b] buffer_slice_pair [of "0x0DA" b]
  by (auto simp add: detectFormat_sector spec_chain_def)

lemma detectFormat_AST_wins:
  assumes "512 \<le> length b" and "b ! 0x1FE = 0x55" and "b ! 0x1FF = 0xAA"
    and "b ! 0x17C = 0x5A" and "b ! 0x17D = 0xA5" and "b ! 0x0FC = 0xAA" and "b ! 0x0FD = 0x55"
  shows "detectFormat (JBuffer b) = Inr ''AST''"
  using assms by (simp add: detectFormat_sector)

section \<open>The NEWLDR getter and setter in closed form\<close>

lemma get_buffer_pre:
  assumes "encodable this" and "firstCHS_opt this = Some chs"
  shows "NEWLDRRecord_get_buffer this =
     write_ascii (([0xEB, word_of_int (stored (size_opt this))] @ map of_char ''NEWLDR''
          @ [word_of_int (stored (physicalDrive_opt this))] @ CHS_get_buffer chs
          @ [word_of_int (stored (minDL_opt this)), 0, 0, 0,
             word_of_int (stored (firstLBA_opt this)),
             word_of_int (stored (firstLBA_opt this) div 256),
             word_of_int (stored (firstLBA_opt this) div 65536),
             word_of_int (stored (firstLBA_opt this) div 16777216),
             word_of_int (stored (patchOffset_opt this)),
             word_of_int (stored (patchOffset_opt this) div 256),
             word_of_int (stored (checksum_opt this)),
             word_of_int (stored (checksum_opt this) div 256)])
          @ replicate 6 0) (signature_opt this) 24"
  using assms
  by (simp add: NEWLDRRecord_get_buffer_def encodable_def bind_err_def Let_def
      replicate30 index_set_def writeUInt8_def writeUInt16LE_def writeUInt32LE_def
      copy_def CHS_get_buffer_def firstCHS_buffer_def upd_Cons_numeral
      write_ascii_def [of _ "Some ''NEWLDR''"] replicate6)

lemma get_buffer_eq:
  assumes "encodable this" and "firstCHS_opt this = Some chs" and "signature_opt this = Some s"
  shows "NEWLDRRecord_get_buffer this =
     Inr ([0xEB, word_of_int (stored (size_opt this))] @ map of_char ''NEWLDR''
          @ [word_of_int (stored (physicalDrive_opt this))] @ CHS_get_buffer chs
          @ [word_of_int (stored (minDL_opt this)), 0, 0, 0,
             word_of_int (stored (firstLBA_opt this)),
             word_of_int (stored (firstLBA_opt this) div 256),
             word_of_int (stored (firstLBA_opt this) div 65536),
             word_of_int (stored (firstLBA_opt this) div 16777216),
             word_of_int (stored (patchOffset_opt this)),
             word_of_int (stored (patchOffset_opt this) div 256),
             word_of_int (stored (checksum_opt this)),
             word_of_int (stored (checksum_opt this) div 256)]
          @ take 6 (map of_char s) @ replicate (6 - length s) 0)"
  unfolding get_buffer_pre [OF assms(1,2)] write_ascii_def assms(3)
  by (simp only: option.case, subst copy_tail) (simp_all add: CHS_get_buffer_def)

lemma get_buffer_fail:
  assumes "\<not> encodable this"
  shows "\<exists>e. NEWLDRRecord_get_buffer this = Inl e"
  using assms
  by (auto simp add: NEWLDRRecord_get_buffer_def encodable_def bind_err_def Let_def
      index_set_def writeUInt8_def writeUInt16LE_def writeUInt32LE_def write_ascii_def
      firstCHS_buffer_def split: sum.splits if_splits option.splits)

lemma stored_byte: "\<not> out_of_range v 0xFF \<Longrightarrow> uint (word_of_int (stored v) :: byte) = stored v"
  by (cases v) (simp_all add: out_of_range_def stored_def uint_byte_of_int)

lemma set_buffer_eq:
  assumes "length b = 30"
  shows "NEWLDRRecord_set_buffer this (JBuffer b) =
     Inr \<lparr>size_field = uint (b ! 1),
          physicalDrive = uint (b ! 8),
          firstCHS = \<lparr>cylinder = push_bit 2 (uint (b ! 10 AND 0xC0)) OR uint (b ! 11),
                      head = uint (b ! 9),
                      sector = uint (b ! 10 AND 0x3F)\<rparr>,
          minDL = uint (b ! 12),
          firstLBA = uint (b ! 16) + 256 * uint (b ! 17) + 65536 * uint (b ! 18)
                       + 16777216 * uint (b ! 19),
          patchOffset = uint (b ! 20) + 256 * uint (b ! 21),
          checksum = uint (b ! 22) + 256 * uint (b ! 23),
          signature = map ascii_char (drop 24 b)\<rparr>"
  using assms
  by (simp add: NEWLDRRecord_set_buffer_def bind_err_def Let_def readUInt8_def readUInt16LE_def
      readUInt32LE_def buffer_slice_9_12 toString_ascii_def)

section \<open>The blank buffer and the format detector\<close>

text \<open>
  Claim C1, as the code has it. \<open>MBR.createBuffer\<close> returns 512 bytes, all zero except
  \<open>0x55, 0xAA\<close> at offsets \<open>0x1FE\<close> and \<open>0x1FF\<close>, and \<open>MBR.detectFormat\<close> on that
  buffer returns \<open>MODERN\<close>: the bytes at \<open>0x0DA\<close> and \<open>0x0DB\<close> are zero, and that test
  comes before the default \<open>CLASSIC\<close>.
\<close>

theorem createBuffer_detect_MODERN:
  "createBuffer = replicate 0x1FE 0 @ [0x55, 0xAA] \<and> length createBuffer = 512 \<and>
   detectFormat (JBuffer createBuffer) = Inr ''MODERN''"
  by (simp add: createBuffer_eq detectFormat_sector nth_append)

text \<open>
  Claim C1 as stated expects \<open>CLASSIC\<close> for the blank buffer; the detector does not
  return it.
\<close>

theorem createBuffer_detect_CLASSIC_counterexample:
  "detectFormat (JBuffer createBuffer) \<noteq> Inr ''CLASSIC''"
  by (simp add: createBuffer_eq detectFormat_sector nth_append)

text \<open>
  Claim C2 says that a sector of at least 512 bytes with a valid boot signature, the
  ASCII characters \<open>NEWLDR\<close> at offsets 2-7 and neither the AST nor the DM marker is
  detected as \<open>NEWLDR\<close>. The source compares \<open>buffer.toString('ascii', 0x02)\<close>, the
  whole rest of the buffer, with the six characters, so the test never holds. On the
  512-byte sector below, which satisfies everything the claim asks for, the detector
  returns \<open>MODERN\<close>.
\<close>

theorem detectFormat_NEWLDR_sector_is_MODERN:
  "length ([0xEB, 0x1C] @ map of_char ''NEWLDR'' @ replicate 502 0 @ [0x55, 0xAA :: byte]) = 512 \<and>
   map ascii_char
     (buffer_slice ([0xEB, 0x1C] @ map of_char ''NEWLDR'' @ replicate 502 0 @ [0x55, 0xAA]) 0x02 0x08)
     = ''NEWLDR'' \<and>
   detectFormat (JBuffer ([0xEB, 0x1C] @ map of_char ''NEWLDR'' @ replicate 502 0 @ [0x55, 0xAA]))
     = Inr ''MODERN''"
  by (simp add: detectFormat_sector nth_append buffer_slice_def ascii_char_def nth_Cons'
      char_of_def)

text \<open>
  Claim C3 says that a sector with both the AST and the DM marker is detected as
  \<open>AST\<close>, and that the chain is evaluated in the order AST, DM, NEWLDR, AAP, MODERN,
  CLASSIC, the first match winning. The first half holds (\<open>detectFormat_AST_wins\<close>).
  The order fails at the NEWLDR step: the source's test compares the whole rest of the
  buffer with the six characters and never holds. On the 512-byte sector below, with
  a valid signature, the tag \<open>NEWLDR\<close> at offsets 2-7 and the AAP marker
  \<open>0x78, 0x56\<close> at \<open>0x1AC\<close>, the chain gives \<open>NEWLDR\<close>, which comes before AAP, and
  the detector returns \<open>AAP\<close>.
\<close>

theorem detectFormat_NEWLDR_sector_with_AAP_marker:
  "length ([0xEB, 0x1C] @ map of_char ''NEWLDR'' @ replicate 420 0 @ [0x78, 0x56]
       @ replicate 80 0 @ [0x55, 0xAA :: byte]) = 512 \<and>
   first_match spec_chain ''CLASSIC''
     ([0xEB, 0x1C] @ map of_char ''NEWLDR'' @ replicate 420 0 @ [0x78, 0x56]
       @ replicate 80 0 @ [0x55, 0xAA]) = ''NEWLDR'' \<and>
   detectFormat (JBuffer ([0xEB, 0x1C] @ map of_char ''NEWLDR'' @ replicate 420 0 @ [0x78, 0x56]
       @ replicate 80 0 @ [0x55, 0xAA])) = Inr ''AAP''"
  by (simp add: detectFormat_sector nth_append spec_chain_def buffer_slice_def ascii_char_def
      nth_Cons' char_of_def replicate2)

text \<open>
  Claim C4. On every buffer shorter than 512 bytes the detector throws the
  \<open>Error\<close> with the message "Buffer too small", whatever the bytes are, and never the
  \<open>SyntaxError\<close> of the signature check.
\<close>

theorem detectFormat_short:
  assumes "length b < 512"
  shows "detectFormat (JBuffer b) = Inl (Error ''Buffer too small (must be at least 512 bytes)'') \<and>
         (\<forall>m. detectFormat (JBuffer b) \<noteq> Inl (SyntaxError m))"
  using assms by (simp add: detectFormat_def)

theorem detectFormat_short_witness:
  "detectFormat (JBuffer (replicate 511 0))
     = Inl (Error ''Buffer too small (must be at least 512 bytes)'') \<and>
   detectFormat (JBuffer (replicate 511 0))
     \<noteq> Inl (SyntaxError ''Invalid MBR boot signature. Expected 0xAA55, but saw 0x0'')"
  using detectFormat_short [of "replicate 511 0"] by simp

text \<open>
  Claim C5, as the code has it. On every 512-byte buffer whose bytes at \<open>0x1FE\<close> and
  \<open>0x1FF\<close> are both zero the detector throws the \<open>SyntaxError\<close> of the signature
  check, and the message gives the 16-bit value read in upper-case hexadecimal with
  no leading zeros: it ends in \<open>0x0\<close>.
\<close>

theorem detectFormat_zero_signature:
  assumes "length b = 512" and "b ! 0x1FE = 0x00" and "b ! 0x1FF = 0x00"
  shows "detectFormat (JBuffer b) =
     Inl (SyntaxError ''Invalid MBR boot signature. Expected 0xAA55, but saw 0x0'')"
  using assms by (simp add: detectFormat_sector hex_zero)

theorem detectFormat_zero_signature_witness:
  "detectFormat (JBuffer (replicate 510 0xFF @ [0, 0])) =
     Inl (SyntaxError ''Invalid MBR boot signature. Expected 0xAA55, but saw 0x0'')"
  using detectFormat_zero_signature [of "replicate 510 0xFF @ [0, 0]"]
  by (simp add: nth_append)

text \<open>
  Claim C5 as stated has the value rendered as \<open>0x0000\<close>. On the all-zero buffer of
  512 bytes the message is the one below, and \<open>0x0000\<close> occurs nowhere in it.
\<close>

theorem detectFormat_zero_signature_counterexample:
  "detectFormat (JBuffer (replicate 512 0)) =
     Inl (SyntaxError ''Invalid MBR boot signature. Expected 0xAA55, but saw 0x0'') \<and>
   \<not> sublist ''0x0000'' ''Invalid MBR boot signature. Expected 0xAA55, but saw 0x0''"
  by (simp add: detectFormat_sector hex_zero sublist_Cons_right)

text \<open>
  Claim C6. The detector throws \<open>TypeError\<close> on a value that is not a buffer,
  \<open>Error\<close> on a buffer shorter than 512 bytes, \<open>SyntaxError\<close> on a longer buffer
  whose bytes at \<open>0x1FE\<close> and \<open>0x1FF\<close> are not \<open>0x55, 0xAA\<close>, and otherwise returns
  one of the six format names. It throws exactly when one of the three conditions
  holds, and it never ends with an exception of the buffer reads.
\<close>

theorem detectFormat_outcomes:
  "(\<not> isBuffer v \<longrightarrow> detectFormat v = Inl (TypeError ''Argument must be a Buffer'')) \<and>
   (length b1 < 512 \<longrightarrow>
      detectFormat (JBuffer b1) = Inl (Error ''Buffer too small (must be at least 512 bytes)'')) \<and>
   (512 \<le> length b2 \<and> \<not> (b2 ! 0x1FE = 0x55 \<and> b2 ! 0x1FF = 0xAA) \<longrightarrow>
      (\<exists>m. detectFormat (JBuffer b2) = Inl (SyntaxError m))) \<and>
   (512 \<le> length b3 \<and> b3 ! 0x1FE = 0x55 \<and> b3 ! 0x1FF = 0xAA \<longrightarrow>
      (\<exists>t \<in> {''CLASSIC'', ''MODERN'', ''AAP'', ''NEWLDR'', ''AST'', ''DM''}.
         detectFormat (JBuffer b3) = Inr t)) \<and>
   (isl (detectFormat v) \<longleftrightarrow>
      \<not> isBuffer v \<or>
      (\<exists>b. v = JBuffer b \<and> (length b < 512 \<or> \<not> (b ! 0x1FE = 0x55 \<and> b ! 0x1FF = 0xAA)))) \<and>
   detectFormat v \<noteq> Inl RangeError"
proof -
  have nb: "\<not> isBuffer v \<Longrightarrow> detectFormat v = Inl (TypeError ''Argument must be a Buffer'')"
    by (cases v) (simp_all add: detectFormat_def)
  have short: "\<And>b. length b < 512 \<Longrightarrow>
      detectFormat (JBuffer b) = Inl (Error ''Buffer too small (must be at least 512 bytes)'')"
    by (simp add: detectFormat_def)
  have isl_iff: "isl (detectFormat v) \<longleftrightarrow>
      \<not> isBuffer v \<or>
      (\<exists>b. v = JBuffer b \<and> (length b < 512 \<or> \<not> (b ! 0x1FE = 0x55 \<and> b ! 0x1FF = 0xAA)))"
  proof (cases v)
    case (JBuffer b)
    show ?thesis
    proof (cases "length b < 512")
      case True
      then show ?thesis unfolding JBuffer by (simp add: short)
    next
      case False
      then have "512 \<le> length b" by simp
      then show ?thesis unfolding JBuffer by (simp add: detectFormat_sector)
    qed
  qed (simp_all add: detectFormat_def)
  have nr: "detectFormat v \<noteq> Inl RangeError"
  proof (cases v)
    case (JBuffer b)
    show ?thesis
    proof (cases "length b < 512")
      case True
      then show ?thesis unfolding JBuffer by (simp add: short)
    next
      case False
      then have "512 \<le> length b" by simp
      then show ?thesis unfolding JBuffer by (simp add: detectFormat_sector)
    qed
  qed (simp_all add: detectFormat_def)
  show ?thesis
    using nb short [of b1] isl_iff nr
    by (simp add: detectFormat_sector)
qed

text \<open>A string, a buffer of two bytes, a sector with the signature reversed, a valid sector.\<close>

theorem detectFormat_outcomes_witness:
  "detectFormat (JString ''MBR'') = Inl (TypeError ''Argument must be a Buffer'') \<and>
   detectFormat (JBuffer [0x55, 0xAA])
     = Inl (Error ''Buffer too small (must be at least 512 bytes)'') \<and>
   (\<exists>m. detectFormat (JBuffer (replicate 510 0 @ [0xAA, 0x55])) = Inl (SyntaxError m)) \<and>
   (\<exists>t \<in> {''CLASSIC'', ''MODERN'', ''AAP'', ''NEWLDR'', ''AST'', ''DM''}.
      detectFormat (JBuffer (replicate 510 0xFF @ [0x55, 0xAA])) = Inr t)"
  using detectFormat_outcomes [of "JString ''MBR''" "[0x55, 0xAA]"
      "replicate 510 0 @ [0xAA, 0x55]" "replicate 510 0xFF @ [0x55, 0xAA]"]
  by (simp add: nth_append)

section \<open>The NEWLDR record: encoding\<close>

text \<open>
  Claim C7, as the code has it. Take a record whose properties each hold an integer
  (a string for the signature, a CHS address for \<open>firstCHS\<close>) or are unset. The getter
  returns a buffer exactly when no integer property is out of range and \<open>firstCHS\<close>
  and \<open>signature\<close> are set; otherwise it throws. The buffer it returns has 30 bytes,
  the opcode \<open>0xEB\<close> at offset 0 and the characters \<open>NEWLDR\<close> at offsets 2-7,
  whatever the properties hold; the byte at offset 1 is the record's own \<open>size\<close>,
  and 0 when \<open>size\<close> is unset.
\<close>

theorem get_buffer_header:
  "(encodable this \<longrightarrow>
      (\<exists>out. NEWLDRRecord_get_buffer this = Inr out \<and> length out = 30 \<and>
             out ! 0 = 0xEB \<and> uint (out ! 1) = stored (size_opt this) \<and>
             buffer_slice out 2 8 = map of_char ''NEWLDR'')) \<and>
   (\<not> encodable that \<longrightarrow> (\<exists>e. NEWLDRRecord_get_buffer that = Inl e))"
proof -
  have "\<exists>out. NEWLDRRecord_get_buffer this = Inr out \<and> length out = 30 \<and>
             out ! 0 = 0xEB \<and> uint (out ! 1) = stored (size_opt this) \<and>
             buffer_slice out 2 8 = map of_char ''NEWLDR''" if r: "encodable this"
  proof -
    from r obtain chs s where c: "firstCHS_opt this = Some chs" and s: "signature_opt this = Some s"
      by (auto simp add: encodable_def)
    from r have sz: "\<not> out_of_range (size_opt this) 0xFF"
      by (simp add: encodable_def)
    show ?thesis
      unfolding get_buffer_eq [OF r c s]
      by (simp add: buffer_slice_def stored_byte [OF sz] CHS_get_buffer_def)
  qed
  then show ?thesis by (simp add: get_buffer_fail)
qed

text \<open>
  A record with \<open>firstCHS\<close> and an empty signature set and every integer property
  unset; and a record with every integer in range and the signature unset.
\<close>

theorem get_buffer_header_witness:
  "(\<exists>out. NEWLDRRecord_get_buffer
     \<lparr>size_opt = None, physicalDrive_opt = None,
      firstCHS_opt = Some \<lparr>cylinder = 1023, head = 254, sector = 63\<rparr>,
      minDL_opt = None, firstLBA_opt = None, patchOffset_opt = None, checksum_opt = None,
      signature_opt = Some []\<rparr>
     = Inr out \<and> length out = 30 \<and> out ! 0 = 0xEB \<and> uint (out ! 1) = 0 \<and>
     buffer_slice out 2 8 = map of_char ''NEWLDR'') \<and>
   (\<exists>e. NEWLDRRecord_get_buffer
     \<lparr>size_opt = Some 0x16, physicalDrive_opt = Some 0x80,
      firstCHS_opt = Some \<lparr>cylinder = 0, head = 0, sector = 1\<rparr>,
      minDL_opt = Some 0x80, firstLBA_opt = Some 0x3F, patchOffset_opt = Some 0x24,
      checksum_opt = Some 0xABCD, signature_opt = None\<rparr>
     = Inl e)"
  using get_buffer_header [of
     "\<lparr>size_opt = None, physicalDrive_opt = None,
      firstCHS_opt = Some \<lparr>cylinder = 1023, head = 254, sector = 63\<rparr>,
      minDL_opt = None, firstLBA_opt = None, patchOffset_opt = None, checksum_opt = None,
      signature_opt = Some []\<rparr>"
     "\<lparr>size_opt = Some 0x16, physicalDrive_opt = Some 0x80,
      firstCHS_opt = Some \<lparr>cylinder = 0, head = 0, sector = 1\<rparr>,
      minDL_opt = Some 0x80, firstLBA_opt = Some 0x3F, patchOffset_opt = Some 0x24,
      checksum_opt = Some 0xABCD, signature_opt = None\<rparr>"]
  by (simp add: encodable_def out_of_range_def stored_def)

text \<open>
  Claim C7 as stated has the size byte regenerated rather than taken from the
  record. Two fully populated records that differ in \<open>size\<close> only are encoded with
  different bytes at offset 1.
\<close>

theorem get_buffer_size_byte_counterexample:
  "NEWLDRRecord_get_buffer (populated
     \<lparr>size_field = 0x16, physicalDrive = 0,
      firstCHS = \<lparr>cylinder = 0, head = 0, sector = 0\<rparr>,
      minDL = 0, firstLBA = 0, patchOffset = 0, checksum = 0, signature = ''MSWIN4''\<rparr>)
     = Inr ([0xEB, 0x16] @ map of_char ''NEWLDR''
            @ [0, 0, 0, 0, 0, 0, 0, 0, 0, 0, 0, 0, 0, 0, 0, 0] @ map of_char ''MSWIN4'') \<and>
   NEWLDRRecord_get_buffer (populated
     \<lparr>size_field = 0x20, physicalDrive = 0,
      firstCHS = \<lparr>cylinder = 0, head = 0, sector = 0\<rparr>,
      minDL = 0, firstLBA = 0, patchOffset = 0, checksum = 0, signature = ''MSWIN4''\<rparr>)
     = Inr ([0xEB, 0x20] @ map of_char ''NEWLDR''
            @ [0, 0, 0, 0, 0, 0, 0, 0, 0, 0, 0, 0, 0, 0, 0, 0] @ map of_char ''MSWIN4'')"
  by (simp add: get_buffer_eq [where chs = "\<lparr>cylinder = 0, head = 0, sector = 0\<rparr>" and s = "''MSWIN4''"]
      populated_def encodable_def out_of_range_def stored_def CHS_get_buffer_def)

text \<open>
  Claim C10, as the code has it. Take a record whose properties each hold an integer
  (a string for the signature, a CHS address for \<open>firstCHS\<close>) or are unset. When no
  integer property is out of range and \<open>firstCHS\<close> and \<open>signature\<close> are set, the getter
  returns exactly 30 bytes with zero at offsets 13, 14 and 15, also when integer
  properties are unset and when the signature is longer than the six bytes left for
  it. In every other case the getter throws and there is no buffer.
\<close>

theorem get_buffer_length_reserved:
  "(encodable this \<longrightarrow>
      (\<exists>out. NEWLDRRecord_get_buffer this = Inr out \<and> length out = 30 \<and>
             out ! 13 = 0 \<and> out ! 14 = 0 \<and> out ! 15 = 0)) \<and>
   (\<not> encodable that \<longrightarrow> (\<exists>e. NEWLDRRecord_get_buffer that = Inl e))"
proof -
  have "\<exists>out. NEWLDRRecord_get_buffer this = Inr out \<and> length out = 30 \<and>
             out ! 13 = 0 \<and> out ! 14 = 0 \<and> out ! 15 = 0" if r: "encodable this"
  proof -
    from r obtain chs s where c: "firstCHS_opt this = Some chs" and s: "signature_opt this = Some s"
      by (auto simp add: encodable_def)
    show ?thesis
      unfolding get_buffer_eq [OF r c s]
      by (simp add: CHS_get_buffer_def)
  qed
  then show ?thesis by (simp add: get_buffer_fail)
qed

text \<open>
  A record with \<open>size\<close> and \<open>checksum\<close> unset, the other integers at their maximum, a
  CHS address beyond its widths and a signature of 15 characters; and a record whose
  LBA needs 33 bits.
\<close>

theorem get_buffer_length_reserved_witness:
  "(\<exists>out. NEWLDRRecord_get_buffer
     \<lparr>size_opt = None, physicalDrive_opt = Some 0xFF,
      firstCHS_opt = Some \<lparr>cylinder = 70000, head = 300, sector = 64\<rparr>,
      minDL_opt = Some 0xFF, firstLBA_opt = Some 0xFFFFFFFF, patchOffset_opt = Some 0xFFFF,
      checksum_opt = None, signature_opt = Some ''MSWIN4.1 LOADER''\<rparr>
     = Inr out \<and> length out = 30 \<and> out ! 13 = 0 \<and> out ! 14 = 0 \<and> out ! 15 = 0) \<and>
   (\<exists>e. NEWLDRRecord_get_buffer
     \<lparr>size_opt = Some 0x16, physicalDrive_opt = Some 0,
      firstCHS_opt = Some \<lparr>cylinder = 0, head = 0, sector = 0\<rparr>,
      minDL_opt = Some 0, firstLBA_opt = Some 0x100000000, patchOffset_opt = Some 0,
      checksum_opt = Some 0, signature_opt = Some ''MSWIN4''\<rparr>
     = Inl e)"
  using get_buffer_length_reserved [of
     "\<lparr>size_opt = None, physicalDrive_opt = Some 0xFF,
      firstCHS_opt = Some \<lparr>cylinder = 70000, head = 300, sector = 64\<rparr>,
      minDL_opt = Some 0xFF, firstLBA_opt = Some 0xFFFFFFFF, patchOffset_opt = Some 0xFFFF,
      checksum_opt = None, signature_opt = Some ''MSWIN4.1 LOADER''\<rparr>"
     "\<lparr>size_opt = Some 0x16, physicalDrive_opt = Some 0,
      firstCHS_opt = Some \<lparr>cylinder = 0, head = 0, sector = 0\<rparr>,
      minDL_opt = Some 0, firstLBA_opt = Some 0x100000000, patchOffset_opt = Some 0,
      checksum_opt = Some 0, signature_opt = Some ''MSWIN4''\<rparr>"]
  by (simp add: encodable_def out_of_range_def)

text \<open>
  Claim C10 as stated covers integer fields that hold over-long values. With
  \<open>size = 256\<close> in a fully populated record the getter throws and returns no buffer.
\<close>

theorem get_buffer_out_of_range_counterexample:
  "NEWLDRRecord_get_buffer (populated
     \<lparr>size_field = 256, physicalDrive = 0,
      firstCHS = \<lparr>cylinder = 0, head = 0, sector = 0\<rparr>,
      minDL = 0, firstLBA = 0, patchOffset = 0, checksum = 0, signature = ''MSWIN4''\<rparr>)
     = Inl RangeError"
  by (simp add: NEWLDRRecord_get_buffer_def populated_def bind_err_def Let_def index_set_def
      writeUInt8_def out_of_range_def)

section \<open>The NEWLDR record: decoding\<close>

text \<open>
  Claim C8. The setter, given any buffer of 30 bytes, returns a record: size from
  byte 1, physical drive from byte 8, the CHS address from bytes 9-11, the minimum-DL
  flag from byte 12, the LBA from bytes 16-19, the patch offset from bytes 20-21 and
  the checksum from bytes 22-23, each little-endian, and the signature the ASCII
  decoding of the six bytes at offsets 24-29, which has those bytes as its character
  codes when they are 7-bit. No byte is checked: the bytes at offsets 2-7 and 24-29
  are arbitrary.
\<close>

theorem set_buffer_fields:
  assumes "length b = 30"
  shows "\<exists>r. NEWLDRRecord_set_buffer this (JBuffer b) = Inr r \<and>
           size_field r = uint (b ! 1) \<and>
           physicalDrive r = uint (b ! 8) \<and>
           CHS_set_buffer [b ! 9, b ! 10, b ! 11] = Inr (firstCHS r) \<and>
           minDL r = uint (b ! 12) \<and>
           firstLBA r = uint (b ! 16) + 2 ^ 8 * uint (b ! 17) + 2 ^ 16 * uint (b ! 18)
                          + 2 ^ 24 * uint (b ! 19) \<and>
           patchOffset r = uint (b ! 20) + 2 ^ 8 * uint (b ! 21) \<and>
           checksum r = uint (b ! 22) + 2 ^ 8 * uint (b ! 23) \<and>
           signature r = map ascii_char [b ! 24, b ! 25, b ! 26, b ! 27, b ! 28, b ! 29] \<and>
           ((\<forall>w \<in> set (drop 24 b). w < 0x80) \<longrightarrow> map of_char (signature r) = drop 24 b)"
proof -
  have "map of_char (map ascii_char (drop 24 b)) = drop 24 b"
    if small: "\<forall>w \<in> set (drop 24 b). w < 0x80"
  proof -
    have "of_char (ascii_char w) = w" if "w \<in> set (drop 24 b)" for w
    proof -
      have "w < 0x80" using small that by blast
      then show ?thesis by (simp add: of_char_ascii_char seven_bit_byte)
    qed
    then show ?thesis by (simp add: map_idI)
  qed
  then show ?thesis
    unfolding set_buffer_eq [OF assms]
    by (simp add: drop_24_30 [OF assms])
qed

text \<open>A buffer with a wrong opcode and a wrong tag, decoded all the same.\<close>

theorem set_buffer_fields_witness:
  "NEWLDRRecord_set_buffer
     \<lparr>size_field = 0x16, physicalDrive = 0,
      firstCHS = \<lparr>cylinder = 0, head = 0, sector = 0\<rparr>,
      minDL = 0, firstLBA = 0, patchOffset = 0, checksum = 0, signature = ''MSWIN4''\<rparr>
     (JBuffer ([0x00, 0x1C] @ map of_char ''BADTAG'' @ [0x80, 0xFE, 0xFF, 0xFF, 0x81, 7, 7, 7,
        0x78, 0x56, 0x34, 0x12, 0x24, 0x00, 0xCD, 0xAB] @ map of_char ''LOADER''))
   = Inr \<lparr>size_field = 0x1C, physicalDrive = 0x80,
          firstCHS = \<lparr>cylinder = 1023, head = 254, sector = 63\<rparr>,
          minDL = 0x81, firstLBA = 0x12345678, patchOffset = 0x24, checksum = 0xABCD,
          signature = ''LOADER''\<rparr>"
  using set_buffer_fields [of
     "[0x00, 0x1C] @ map of_char ''BADTAG'' @ [0x80, 0xFE, 0xFF, 0xFF, 0x81, 7, 7, 7,
        0x78, 0x56, 0x34, 0x12, 0x24, 0x00, 0xCD, 0xAB] @ map of_char ''LOADER''"
     "\<lparr>size_field = 0x16, physicalDrive = 0,
      firstCHS = \<lparr>cylinder = 0, head = 0, sector = 0\<rparr>,
      minDL = 0, firstLBA = 0, patchOffset = 0, checksum = 0, signature = ''MSWIN4''\<rparr>"]
  by (auto simp add: ascii_char_def char_of_def)

text \<open>
  Claim C9. Two buffers of 30 bytes that agree at offsets 1, 8-12 and 16-29 are
  decoded to the same record, whatever they hold at offsets 0, 2-7 and 13-15 and
  whatever the records held before.
\<close>

theorem set_buffer_ignores_undecoded_bytes:
  assumes "length b1 = 30" and "length b2 = 30"
    and "map (\<lambda>i. b1 ! i) decoded_positions = map (\<lambda>i. b2 ! i) decoded_positions"
  shows "NEWLDRRecord_set_buffer this1 (JBuffer b1) = NEWLDRRecord_set_buffer this2 (JBuffer b2) \<and>
         (\<exists>r. NEWLDRRecord_set_buffer this1 (JBuffer b1) = Inr r)"
proof -
  have "drop 24 b1 = drop 24 b2"
    using assms by (simp add: drop_24_30 decoded_positions_def)
  then show ?thesis
    using assms(3)
    unfolding set_buffer_eq [OF assms(1)] set_buffer_eq [OF assms(2)]
    by (simp add: decoded_positions_def)
qed

text \<open>Two buffers that differ at offset 0, in the tag and in the reserved bytes.\<close>

theorem set_buffer_ignores_undecoded_bytes_witness:
  "NEWLDRRecord_set_buffer
     \<lparr>size_field = 0x16, physicalDrive = 0,
      firstCHS = \<lparr>cylinder = 0, head = 0, sector = 0\<rparr>,
      minDL = 0, firstLBA = 0, patchOffset = 0, checksum = 0, signature = ''MSWIN4''\<rparr>
     (JBuffer ([0xEB, 0x1C] @ map of_char ''NEWLDR'' @ [0x80, 1, 2, 3, 0x80, 0, 0, 0,
        0x78, 0x56, 0x34, 0x12, 0x24, 0x00, 0xCD, 0xAB] @ map of_char ''MSWIN4''))
   = NEWLDRRecord_set_buffer
     \<lparr>size_field = 0, physicalDrive = 1, firstCHS = \<lparr>cylinder = 2, head = 3, sector = 4\<rparr>,
      minDL = 5, firstLBA = 6, patchOffset = 7, checksum = 8, signature = []\<rparr>
     (JBuffer ([0x90, 0x1C] @ map of_char ''BADTAG'' @ [0x80, 1, 2, 3, 0x80, 0xFF, 0xFE, 0xFD,
        0x78, 0x56, 0x34, 0x12, 0x24, 0x00, 0xCD, 0xAB] @ map of_char ''MSWIN4''))"
  using set_buffer_ignores_undecoded_bytes [of
     "[0xEB, 0x1C] @ map of_char ''NEWLDR'' @ [0x80, 1, 2, 3, 0x80, 0, 0, 0,
        0x78, 0x56, 0x34, 0x12, 0x24, 0x00, 0xCD, 0xAB] @ map of_char ''MSWIN4''"
     "[0x90, 0x1C] @ map of_char ''BADTAG'' @ [0x80, 1, 2, 3, 0x80, 0xFF, 0xFE, 0xFD,
        0x78, 0x56, 0x34, 0x12, 0x24, 0x00, 0xCD, 0xAB] @ map of_char ''MSWIN4''"
     "\<lparr>size_field = 0x16, physicalDrive = 0,
      firstCHS = \<lparr>cylinder = 0, head = 0, sector = 0\<rparr>,
      minDL = 0, firstLBA = 0, patchOffset = 0, checksum = 0, signature = ''MSWIN4''\<rparr>"
     "\<lparr>size_field = 0, physicalDrive = 1, firstCHS = \<lparr>cylinder = 2, head = 3, sector = 4\<rparr>,
      minDL = 5, firstLBA = 6, patchOffset = 7, checksum = 8, signature = []\<rparr>"]
  by (simp add: decoded_positions_def)

end
